theory Spec2Isabelle
  imports Main "HOL-Library.AList"
begin

section \<open>Python values of the monitoring state\<close>

text \<open>
  \<^verbatim>\<open>StateManager.state\<close> is whatever \<^verbatim>\<open>json.load\<close> returned, or the
  default dict of \<^verbatim>\<open>_load_state\<close>, so it is modelled as a JSON-shaped Python
  value. A naive \<^verbatim>\<open>datetime\<close> is the number of microseconds since a fixed
  origin. A \<^verbatim>\<open>str\<close> is one of two things: \<open>PTime t\<close>, the ISO-8601 text
  that \<^verbatim>\<open>datetime.isoformat()\<close> writes for the instant \<open>t\<close> and that
  \<^verbatim>\<open>datetime.fromisoformat\<close> reads back as \<open>t\<close>; or \<open>PStr s\<close>, any other
  text \<open>s\<close>, which \<^verbatim>\<open>fromisoformat\<close> rejects. JSON numbers with a
  fraction or an exponent (Python floats) are left out.
\<close>

type_synonym timestamp = int

datatype pyval =
    PNone
  | PBool bool
  | PInt int
  | PTime timestamp
  | PStr string
  | PList "pyval list"
  | PDict "(string \<times> pyval) list"

text \<open>The exceptions the model raises; all of them are subclasses of
  \<^verbatim>\<open>Exception\<close>, so every \<^verbatim>\<open>except Exception\<close> handler catches each of them.\<close>

datatype exn = KeyError string | TypeError | ValueError | OSError

definition bind_exn :: "exn + 'a \<Rightarrow> ('a \<Rightarrow> exn + 'b) \<Rightarrow> exn + 'b" where
  "bind_exn m f = (case m of Inl e \<Rightarrow> Inl e | Inr x \<Rightarrow> f x)"

text \<open>\<^verbatim>\<open>d[k]\<close> with a string key: a dict looks the key up, every other value
  raises \<^verbatim>\<open>TypeError\<close>.\<close>

fun getitem :: "pyval \<Rightarrow> string \<Rightarrow> exn + pyval" where
  "getitem (PDict kvs) k = (case map_of kvs k of None \<Rightarrow> Inl (KeyError k) | Some v \<Rightarrow> Inr v)"
| "getitem _ k = Inl TypeError"

text \<open>\<^verbatim>\<open>d[k] = v\<close>: a dict replaces the value of a key it has in place and
  appends a new key; every other value raises \<^verbatim>\<open>TypeError\<close>.\<close>

fun setitem :: "pyval \<Rightarrow> string \<Rightarrow> pyval \<Rightarrow> exn + pyval" where
  "setitem (PDict kvs) k v = Inr (PDict (AList.update k v kvs))"
| "setitem _ k v = Inl TypeError"

text \<open>Truth value of a Python object, as \<^verbatim>\<open>if x:\<close> tests it.\<close>

fun truthy :: "pyval \<Rightarrow> bool" where
  "truthy PNone = False"
| "truthy (PBool b) = b"
| "truthy (PInt n) = (n \<noteq> 0)"
| "truthy (PTime t) = True"
| "truthy (PStr s) = (s \<noteq> [])"
| "truthy (PList xs) = (xs \<noteq> [])"
| "truthy (PDict kvs) = (kvs \<noteq> [])"

text \<open>\<^verbatim>\<open>datetime.fromisoformat(x)\<close>: \<^verbatim>\<open>ValueError\<close> on a string that is
  not ISO text, \<^verbatim>\<open>TypeError\<close> on a value that is not a string.\<close>

fun fromisoformat :: "pyval \<Rightarrow> exn + timestamp" where
  "fromisoformat (PTime t) = Inr t"
| "fromisoformat (PStr s) = Inl ValueError"
| "fromisoformat _ = Inl TypeError"

definition isoformat :: "timestamp \<Rightarrow> pyval" where
  "isoformat t = PTime t"

text \<open>\<^verbatim>\<open>timedelta(seconds=n)\<close> in microseconds. The limits of
  \<^verbatim>\<open>datetime\<close> (years 1 to 9999) and of \<^verbatim>\<open>timedelta\<close> (at most 999999999
  days) are left out: instants and durations are unbounded integers.\<close>

definition timedelta_seconds :: "int \<Rightarrow> int" where
  "timedelta_seconds n = n * 1000000"

text \<open>\<^verbatim>\<open>x += 1\<close> on a stored value: \<^verbatim>\<open>bool\<close> is a subclass of
  \<^verbatim>\<open>int\<close>, everything that is not a number raises \<^verbatim>\<open>TypeError\<close>.\<close>

fun add_one :: "pyval \<Rightarrow> exn + pyval" where
  "add_one (PInt n) = Inr (PInt (n + 1))"
| "add_one (PBool b) = Inr (PInt ((if b then 1 else 0) + 1))"
| "add_one _ = Inl TypeError"

section \<open>StateManager.should\_send\_alert\<close>

text \<open>
  \<open>now\<close> is what \<^verbatim>\<open>datetime.now()\<close> returns when the cooldown branch reads
  the clock. \<^verbatim>\<open>is False\<close>, \<^verbatim>\<open>is None\<close> and \<^verbatim>\<open>is True\<close> compare with the
  three singletons, so an integer \<open>0\<close> or \<open>1\<close> is none of them.
\<close>

definition should_send_alert :: "pyval \<Rightarrow> bool \<Rightarrow> int \<Rightarrow> timestamp \<Rightarrow> exn + bool" where
  "should_send_alert st current_status cooldown_seconds now =
     (if current_status then
        bind_exn (getitem st ''last_status'') (\<lambda>last.
          if last = PBool False then Inr True else Inr False)
      else
        bind_exn (getitem st ''last_status'') (\<lambda>last.
          if last = PNone \<or> last = PBool True then Inr True
          else
            bind_exn (getitem st ''last_alert_time'') (\<lambda>stamp.
              if truthy stamp then
                bind_exn (fromisoformat stamp) (\<lambda>last_alert.
                  if now - last_alert > timedelta_seconds cooldown_seconds then Inr True
                  else Inr False)
              else Inr False)))"

text \<open>
  The three-way decision of a cycle, as \<^verbatim>\<open>run_check\<close> takes it: no alert when
  \<^verbatim>\<open>should_alert\<close> is false, otherwise a recovery alert when
  \<^verbatim>\<open>is_active and state['last_status'] is False\<close>, and a failure alert in the
  remaining case.
\<close>

datatype alert_decision = Suppressed | RaiseFailure | RaiseRecovery

definition is_recovery_of :: "pyval \<Rightarrow> bool \<Rightarrow> exn + bool" where
  "is_recovery_of st is_active =
     (if is_active then bind_exn (getitem st ''last_status'') (\<lambda>last. Inr (last = PBool False))
      else Inr False)"

definition decide :: "pyval \<Rightarrow> bool \<Rightarrow> int \<Rightarrow> timestamp \<Rightarrow> exn + alert_decision" where
  "decide st is_active cooldown_seconds now =
     bind_exn (should_send_alert st is_active cooldown_seconds now) (\<lambda>should_alert.
       if should_alert then
         bind_exn (is_recovery_of st is_active) (\<lambda>is_recovery.
           Inr (if is_recovery then RaiseRecovery else RaiseFailure))
       else Inr Suppressed)"

section \<open>The health ledger\<close>

text \<open>
  The five fields of the ledger, and the dict that holds them: the keys, and their
  order, are those of the default dict in \<^verbatim>\<open>_load_state\<close>. A null timestamp
  or status is \<^verbatim>\<open>None\<close>; the status \<^verbatim>\<open>True\<close> is up and \<^verbatim>\<open>False\<close> is
  down.
\<close>

record ledger =
  last_check_time :: "timestamp option"
  last_status :: "bool option"
  last_alert_time :: "timestamp option"
  consecutive_failures :: int
  last_success_time :: "timestamp option"

definition opt_time :: "timestamp option \<Rightarrow> pyval" where
  "opt_time t = (case t of None \<Rightarrow> PNone | Some u \<Rightarrow> PTime u)"

definition opt_bool :: "bool option \<Rightarrow> pyval" where
  "opt_bool b = (case b of None \<Rightarrow> PNone | Some c \<Rightarrow> PBool c)"

definition to_state :: "ledger \<Rightarrow> pyval" where
  "to_state l = PDict
     [(''last_check'', opt_time (last_check_time l)),
      (''last_status'', opt_bool (last_status l)),
      (''last_alert_time'', opt_time (last_alert_time l)),
      (''consecutive_failures'', PInt (consecutive_failures l)),
      (''last_success_time'', opt_time (last_success_time l))]"


section \<open>The world a check runs in\<close>

text \<open>
  Calls of \<^verbatim>\<open>Logger.log\<close> are recorded with their level and message; the
  constructors of \<open>log_msg\<close> stand for the format strings of the source, with the
  values they interpolate. The record is of the calls, before the logger filters by
  level.
\<close>

datatype level = DEBUG | INFO | WARNING | ERROR

datatype log_msg =
    Starting_service_check string
  | Service_status string string
  | Timeout_checking_service string
  | Error_checking_service string string
  | Dry_run_would_send_email string
  | Email_sent_successfully string
  | Email_send_attempt_failed nat string
  | Failed_to_send_email_after_all_retries
  | Failed_to_get_CPU_stats string
  | Failed_to_get_memory_stats string
  | Failed_to_get_disk_stats string
  | Dry_run_would_send_webhook
  | Webhook_sent_successfully
  | Webhook_failed int
  | Webhook_error string
  | Check_complete string string bool
  | Monitor_stopped_by_user
  | Unexpected_error_in_main_loop exn

text \<open>
  The state file. Its text is read through \<^verbatim>\<open>json.load\<close> and written through
  \<^verbatim>\<open>json.dump\<close> only, so a text is modelled by what \<^verbatim>\<open>json.load\<close> makes
  of it: \<open>Encoded v\<close> is a text that decodes to the value \<open>v\<close> (the text that
  \<^verbatim>\<open>json.dump\<close> writes for \<open>v\<close> is one), \<open>Malformed\<close> is a text that
  \<^verbatim>\<open>json.load\<close> rejects. \<open>content = None\<close>: no file at the path;
  \<open>readable\<close>, \<open>writable\<close>: whether \<^verbatim>\<open>open(path, 'r')\<close> and
  \<^verbatim>\<open>open(path, 'w')\<close> succeed.
\<close>

datatype file_text = Malformed | Encoded pyval

record store =
  content :: "file_text option"
  readable :: bool
  writable :: bool

text \<open>
  \<open>state\<close> is \<^verbatim>\<open>StateManager.state\<close>; \<open>sleeps\<close> lists the arguments of the
  calls of \<^verbatim>\<open>time.sleep\<close> that returned, in seconds; \<open>smtp_attempts\<close> counts
  the runs of the \<^verbatim>\<open>try\<close> body of \<^verbatim>\<open>send_email_alert\<close>; \<open>stderr_lines\<close>
  lists the exceptions printed as \<^verbatim>\<open>Fatal error: ...\<close>.
\<close>

record world =
  state :: pyval
  disk :: store
  logs :: "(level \<times> log_msg) list"
  sleeps :: "int list"
  smtp_attempts :: nat
  stderr_lines :: "exn list"

text \<open>An action returns a value or raises, and leaves a world; an exception ends a
  sequence of actions where it is raised and keeps the world of that moment.\<close>

type_synonym 'a action = "world \<Rightarrow> (exn + 'a) \<times> world"

definition return_io :: "'a \<Rightarrow> 'a action" where
  "return_io x w = (Inr x, w)"

definition bind_io :: "'a action \<Rightarrow> ('a \<Rightarrow> 'b action) \<Rightarrow> 'b action" where
  "bind_io m f w = (case m w of (Inl e, w') \<Rightarrow> (Inl e, w') | (Inr x, w') \<Rightarrow> f x w')"

definition then_io :: "'a action \<Rightarrow> 'b action \<Rightarrow> 'b action" where
  "then_io m n = bind_io m (\<lambda>_. n)"

definition log :: "level \<Rightarrow> log_msg \<Rightarrow> world \<Rightarrow> world" where
  "log lvl msg w = w\<lparr>logs := logs w @ [(lvl, msg)]\<rparr>"



definition state_get :: "string \<Rightarrow> pyval action" where
  "state_get k w = (getitem (state w) k, w)"

definition state_set :: "string \<Rightarrow> pyval \<Rightarrow> unit action" where
  "state_set k v w =
     (case setitem (state w) k v of Inl e \<Rightarrow> (Inl e, w) | Inr s \<Rightarrow> (Inr (), w\<lparr>state := s\<rparr>))"

section \<open>StateManager: loading, saving and updating the state\<close>





text \<open>\<^verbatim>\<open>save_state\<close>: \<^verbatim>\<open>open(path, 'w')\<close> raises \<^verbatim>\<open>OSError\<close> when the
  location cannot be written, and nothing in \<^verbatim>\<open>save_state\<close> catches it.\<close>

definition save_state :: "unit action" where
  "save_state w =
     (if writable (disk w) then
        (Inr (), w\<lparr>disk := (disk w)\<lparr>content := Some (Encoded (state w))\<rparr>\<rparr>)
      else (Inl OSError, w))"

text \<open>The readings of \<^verbatim>\<open>datetime.now()\<close> during one cycle: in
  \<^verbatim>\<open>should_send_alert\<close>, and the three of \<^verbatim>\<open>update_state\<close> in their order.\<close>

record clock =
  t_policy :: timestamp
  t_check :: timestamp
  t_success :: timestamp
  t_alert :: timestamp

definition update_state :: "clock \<Rightarrow> bool \<Rightarrow> bool \<Rightarrow> unit action" where
  "update_state clk status alert_sent =
     then_io (state_set ''last_check'' (isoformat (t_check clk)))
    (then_io (state_set ''last_status'' (PBool status))
    (then_io
       (if status then
          then_io (state_set ''consecutive_failures'' (PInt 0))
                  (state_set ''last_success_time'' (isoformat (t_success clk)))
        else
          bind_io (state_get ''consecutive_failures'') (\<lambda>n.
          bind_io (\<lambda>w. (add_one n, w)) (\<lambda>m.
          state_set ''consecutive_failures'' m)))
    (then_io
       (if alert_sent then state_set ''last_alert_time'' (isoformat (t_alert clk))
        else return_io ())
     save_state)))"

text \<open>The fields of a ledger after \<^verbatim>\<open>update_state\<close>, used to state what the
  function does to the dict of a ledger.\<close>

definition updated :: "clock \<Rightarrow> bool \<Rightarrow> bool \<Rightarrow> ledger \<Rightarrow> ledger" where
  "updated clk status alert_sent l =
     \<lparr>last_check_time = Some (t_check clk),
      last_status = Some status,
      last_alert_time = (if alert_sent then Some (t_alert clk) else last_alert_time l),
      consecutive_failures = (if status then 0 else consecutive_failures l + 1),
      last_success_time = (if status then Some (t_success clk) else last_success_time l)\<rparr>"

section \<open>ServiceMonitor: one check cycle\<close>
















section \<open>The two modes of main\<close>









section \<open>Lookups in a ledger\<close>

lemma getitem_last_status:
  "getitem (to_state l) ''last_status'' = Inr (opt_bool (last_status l))"
  by (simp add: to_state_def)

lemma getitem_last_alert_time:
  "getitem (to_state l) ''last_alert_time'' = Inr (opt_time (last_alert_time l))"
  by (simp add: to_state_def)

lemma decide_ledger:
  "decide (to_state l) is_active cooldown now = Inr
     (if is_active then (if last_status l = Some False then RaiseRecovery else Suppressed)
      else if last_status l \<noteq> Some False then RaiseFailure
      else (case last_alert_time l of
              None \<Rightarrow> Suppressed
            | Some t \<Rightarrow> if now - t > timedelta_seconds cooldown then RaiseFailure
                        else Suppressed))"
  by (cases "last_status l"; cases "last_alert_time l")
     (auto simp: decide_def should_send_alert_def is_recovery_of_def bind_exn_def
        getitem_last_status getitem_last_alert_time opt_bool_def opt_time_def)


lemma update_state_ledger:
  "state w = to_state l \<Longrightarrow>
   update_state clk status alert_sent w
     = save_state (w\<lparr>state := to_state (updated clk status alert_sent l)\<rparr>)"
  by (simp add: update_state_def then_io_def bind_io_def state_set_def state_get_def
        return_io_def to_state_def updated_def isoformat_def opt_time_def opt_bool_def)

section \<open>Frame and result lemmas for the check cycle\<close>

lemma log_frame [simp]:
  "state (log lvl msg w) = state w" "disk (log lvl msg w) = disk w"
  "sleeps (log lvl msg w) = sleeps w" "smtp_attempts (log lvl msg w) = smtp_attempts w"
  by (simp_all add: log_def)

























section \<open>Transition policy\<close>

text \<open>
  C1 (as the claim states it, refuted). The claim wants a failure alert when the last
  status is down, the service is still down and no alert time is recorded. The guard
  \<^verbatim>\<open>if self.state['last_alert_time']:\<close> skips the cooldown test for a missing
  time and the function falls through to \<^verbatim>\<open>return False\<close>: the decision is
  Suppressed, not RaiseFailure.
\<close>

theorem C1_missing_alert_time_counterexample:
  "decide (to_state \<lparr>last_check_time = Some 1000000, last_status = Some False,
      last_alert_time = None, consecutive_failures = 1, last_success_time = None\<rparr>)
     False 3600 7200000000 = Inr Suppressed
   \<and> decide (to_state \<lparr>last_check_time = Some 1000000, last_status = Some False,
      last_alert_time = None, consecutive_failures = 1, last_success_time = None\<rparr>)
     False 3600 7200000000 \<noteq> Inr RaiseFailure"
  by (simp add: decide_ledger)

text \<open>
  C1 (amended). For every ledger whose last status is down and whose last alert time is
  absent, a check that finds the service down is Suppressed, for every cooldown and every
  reading of the clock.
\<close>

theorem C1_missing_alert_time_suppressed:
  "last_status l = Some False \<Longrightarrow> last_alert_time l = None \<Longrightarrow>
   decide (to_state l) False cooldown now = Inr Suppressed"
  by (simp add: decide_ledger)

theorem C1_missing_alert_time_suppressed_witness:
  "last_status \<lparr>last_check_time = None, last_status = Some False, last_alert_time = None,
      consecutive_failures = 3, last_success_time = None\<rparr> = Some False
   \<and> last_alert_time \<lparr>last_check_time = None, last_status = Some False,
      last_alert_time = None, consecutive_failures = 3, last_success_time = None\<rparr> = None
   \<and> decide (to_state \<lparr>last_check_time = None, last_status = Some False,
      last_alert_time = None, consecutive_failures = 3, last_success_time = None\<rparr>)
     False 60 0 = Inr Suppressed"
  using C1_missing_alert_time_suppressed
    [of "\<lparr>last_check_time = None, last_status = Some False, last_alert_time = None,
      consecutive_failures = 3, last_success_time = None\<rparr>" 60 0]
  by simp



text \<open>
  C3. A check that finds the service up raises a recovery alert when the last status is
  down, whatever the last alert time and the cooldown, and is Suppressed when the last
  status is up or unknown; and a recovery alert is the decision of no other situation:
  the decision is RaiseRecovery exactly when the service is up and the last status is
  down.
\<close>

theorem C3_recovery:
  "(last_status l = Some False \<longrightarrow> decide (to_state l) True cooldown now = Inr RaiseRecovery)
   \<and> (last_status l \<noteq> Some False \<longrightarrow> decide (to_state l) True cooldown now = Inr Suppressed)
   \<and> (decide (to_state l) is_active cooldown now = Inr RaiseRecovery)
       = (is_active \<and> last_status l = Some False)"
  by (simp add: decide_ledger split: option.split)

theorem C3_recovery_witness:
  "decide (to_state \<lparr>last_check_time = Some 0, last_status = Some False,
      last_alert_time = Some 0, consecutive_failures = 2, last_success_time = None\<rparr>)
     True 3600 1 = Inr RaiseRecovery
   \<and> decide (to_state \<lparr>last_check_time = Some 0, last_status = Some True,
      last_alert_time = None, consecutive_failures = 0, last_success_time = Some 0\<rparr>)
     True 3600 1 = Inr Suppressed
   \<and> decide (to_state \<lparr>last_check_time = None, last_status = None,
      last_alert_time = None, consecutive_failures = 0, last_success_time = None\<rparr>)
     True 3600 1 = Inr Suppressed"
  using
    C3_recovery [of "\<lparr>last_check_time = Some 0, last_status = Some False,
      last_alert_time = Some 0, consecutive_failures = 2, last_success_time = None\<rparr>"
      3600 1 True]
    C3_recovery [of "\<lparr>last_check_time = Some 0, last_status = Some True,
      last_alert_time = None, consecutive_failures = 0, last_success_time = Some 0\<rparr>"
      3600 1 True]
    C3_recovery [of "\<lparr>last_check_time = None, last_status = None,
      last_alert_time = None, consecutive_failures = 0, last_success_time = None\<rparr>"
      3600 1 True]
  by simp

section \<open>Persistence of the ledger\<close>





text \<open>
  C9. On the dict of a ledger \<open>l\<close>, \<^verbatim>\<open>update_state\<close> leaves the dict of the
  ledger \<open>l'\<close> whose status is the status of the cycle. An up cycle sets the counter
  of consecutive failures to 0 and the last success time to the clock's reading; a down
  cycle adds exactly 1 to the counter. So afterwards the counter is 0 whenever the status is up,
  and a counter that was not negative is not negative. This holds whether or not the
  save at the end of \<^verbatim>\<open>update_state\<close> succeeds.
\<close>

theorem C9_update_state_invariant:
  "state w = to_state l \<Longrightarrow> l' = updated clk status alert_sent l \<Longrightarrow>
   state (snd (update_state clk status alert_sent w)) = to_state l'
   \<and> last_status l' = Some status
   \<and> (status \<longrightarrow> consecutive_failures l' = 0 \<and> last_success_time l' = Some (t_success clk))
   \<and> (\<not> status \<longrightarrow> consecutive_failures l' = consecutive_failures l + 1)
   \<and> (last_status l' = Some True \<longrightarrow> consecutive_failures l' = 0)
   \<and> (0 \<le> consecutive_failures l \<longrightarrow> 0 \<le> consecutive_failures l')"
  by (simp add: update_state_ledger save_state_def updated_def)

theorem C9_update_state_invariant_witness:
  "state (snd (update_state \<lparr>t_policy = 10, t_check = 11, t_success = 12, t_alert = 13\<rparr>
        True False
        \<lparr>state = to_state \<lparr>last_check_time = Some 5, last_status = Some False,
           last_alert_time = Some 5, consecutive_failures = 2, last_success_time = None\<rparr>,
         disk = \<lparr>content = None, readable = True, writable = True\<rparr>,
         logs = [], sleeps = [], smtp_attempts = 0, stderr_lines = []\<rparr>))
     = to_state \<lparr>last_check_time = Some 11, last_status = Some True,
           last_alert_time = Some 5, consecutive_failures = 0, last_success_time = Some 12\<rparr>
   \<and> state (snd (update_state \<lparr>t_policy = 10, t_check = 11, t_success = 12, t_alert = 13\<rparr>
        False False
        \<lparr>state = to_state \<lparr>last_check_time = Some 5, last_status = Some False,
           last_alert_time = Some 5, consecutive_failures = 2, last_success_time = None\<rparr>,
         disk = \<lparr>content = None, readable = True, writable = False\<rparr>,
         logs = [], sleeps = [], smtp_attempts = 0, stderr_lines = []\<rparr>))
     = to_state \<lparr>last_check_time = Some 11, last_status = Some False,
           last_alert_time = Some 5, consecutive_failures = 3, last_success_time = None\<rparr>"
  using
    C9_update_state_invariant
      [of "\<lparr>state = to_state \<lparr>last_check_time = Some 5, last_status = Some False,
           last_alert_time = Some 5, consecutive_failures = 2, last_success_time = None\<rparr>,
         disk = \<lparr>content = None, readable = True, writable = True\<rparr>,
         logs = [], sleeps = [], smtp_attempts = 0, stderr_lines = []\<rparr>"
        "\<lparr>last_check_time = Some 5, last_status = Some False,
           last_alert_time = Some 5, consecutive_failures = 2, last_success_time = None\<rparr>"
        "\<lparr>last_check_time = Some 11, last_status = Some True,
           last_alert_time = Some 5, consecutive_failures = 0, last_success_time = Some 12\<rparr>"
        "\<lparr>t_policy = 10, t_check = 11, t_success = 12, t_alert = 13\<rparr>" True False]
    C9_update_state_invariant
      [of "\<lparr>state = to_state \<lparr>last_check_time = Some 5, last_status = Some False,
           last_alert_time = Some 5, consecutive_failures = 2, last_success_time = None\<rparr>,
         disk = \<lparr>content = None, readable = True, writable = False\<rparr>,
         logs = [], sleeps = [], smtp_attempts = 0, stderr_lines = []\<rparr>"
        "\<lparr>last_check_time = Some 5, last_status = Some False,
           last_alert_time = Some 5, consecutive_failures = 2, last_success_time = None\<rparr>"
        "\<lparr>last_check_time = Some 11, last_status = Some False,
           last_alert_time = Some 5, consecutive_failures = 3, last_success_time = None\<rparr>"
        "\<lparr>t_policy = 10, t_check = 11, t_success = 12, t_alert = 13\<rparr>" False False]
  by (simp add: updated_def)

section \<open>Notification dispatcher\<close>





section \<open>Dry-run mode\<close>



section \<open>A save that fails\<close>




end
